theory Spec2Isabelle
  imports Main
begin

section \<open>The CodeRunner development server (serve.py)\<close>

text \<open>
  The script prints five status lines, creates a \<^verbatim>\<open>socketserver.TCPServer\<close> on the fixed
  port with a request handler rooted at the script's own directory, opens the browser and
  serves until an exception ends the loop. Everything it does is an effect on the outside
  world, so the model is a function from a description of that world (what the library
  calls return or raise in one run) to the sequence of effects and the way \<^verbatim>\<open>main\<close> ends.
\<close>

subsection \<open>Strings\<close>

text \<open>
  Python strings are modelled by their UTF-8 bytes. The pictographs of the status lines
  are the byte sequences the source file holds.
\<close>

definition emoji_game :: string where
  "emoji_game = [CHR 0xF0, CHR 0x9F, CHR 0x8E, CHR 0xAE]"

definition emoji_folder :: string where
  "emoji_folder = [CHR 0xF0, CHR 0x9F, CHR 0x93, CHR 0x81]"

definition emoji_globe :: string where
  "emoji_globe = [CHR 0xF0, CHR 0x9F, CHR 0x8C, CHR 0x90]"

definition emoji_rocket :: string where
  "emoji_rocket = [CHR 0xF0, CHR 0x9F, CHR 0x9A, CHR 0x80]"

definition emoji_stop_button :: string where
  "emoji_stop_button = [CHR 0xE2, CHR 0x8F, CHR 0xB9, CHR 0xEF, CHR 0xB8, CHR 0x8F]"

definition emoji_stop_sign :: string where
  "emoji_stop_sign = [CHR 0xF0, CHR 0x9F, CHR 0x9B, CHR 0x91]"

definition emoji_cross :: string where
  "emoji_cross = [CHR 0xE2, CHR 0x9D, CHR 0x8C]"

text \<open>\<^verbatim>\<open>s.startswith(p)\<close>.\<close>

fun startswith :: "string \<Rightarrow> string \<Rightarrow> bool" where
  "startswith s [] = True"
| "startswith [] (p # ps) = False"
| "startswith (c # cs) (p # ps) = (c = p \<and> startswith cs ps)"

text \<open>\<^verbatim>\<open>sub in s\<close> on strings: \<open>sub\<close> occurs in \<open>s\<close> at some position.\<close>

fun str_contains :: "string \<Rightarrow> string \<Rightarrow> bool" where
  "str_contains sub [] = (sub = [])"
| "str_contains sub (c # cs) = (startswith (c # cs) sub \<or> str_contains sub cs)"

text \<open>\<^verbatim>\<open>str(n)\<close> for an integer, as an f-string renders \<^verbatim>\<open>{PORT}\<close>.\<close>

fun str_nat :: "nat \<Rightarrow> string" where
  "str_nat n = (if n < 10 then [''0123456789'' ! n]
                else str_nat (n div 10) @ [''0123456789'' ! (n mod 10)])"

declare str_nat.simps [simp del]

definition str_int :: "int \<Rightarrow> string" where
  "str_int i = (if i < 0 then ''-'' @ str_nat (nat (- i)) else str_nat (nat i))"

subsection \<open>The outside world of one run\<close>

text \<open>
  The three clauses of the \<^verbatim>\<open>try\<close> statement tell three kinds of exception apart:
  \<^verbatim>\<open>KeyboardInterrupt\<close>, \<^verbatim>\<open>OSError\<close> (with every subclass), and the rest, which no clause
  catches. An \<^verbatim>\<open>OSError\<close> carries its \<^verbatim>\<open>errno\<close> attribute (\<open>None\<close> when it has none)
  and its text \<^verbatim>\<open>str(e)\<close>; the script reads the text only. \<open>Exception c\<close> is an
  exception of any other class, \<open>c\<close> the name of the class.
\<close>

datatype exception = KeyboardInterrupt | OSError "int option" string | Exception string

text \<open>
  What reaches the server while it is in \<^verbatim>\<open>serve_forever\<close>: a request for a path, or an
  exception raised inside the loop (Ctrl+C raises \<^verbatim>\<open>KeyboardInterrupt\<close> there).
\<close>

datatype arrival = Request string | Raises exception

text \<open>
  The library calls of the script are parameters of the model: \<open>getcwd\<close> is the value of
  \<^verbatim>\<open>os.getcwd()\<close>, \<open>script\<close> the value of \<^verbatim>\<open>__file__\<close>, \<open>abspath\<close> and \<open>dirname\<close> are
  \<^verbatim>\<open>os.path.abspath\<close> and \<^verbatim>\<open>os.path.dirname\<close> in this process. \<open>TCPServer_raises\<close> is the
  exception the constructor \<^verbatim>\<open>socketserver.TCPServer(("", PORT), Handler)\<close> raises, if
  any (it creates the socket, binds it and listens); \<open>webbrowser_raises\<close> likewise for
  \<^verbatim>\<open>webbrowser.open\<close>; \<open>arrivals\<close> is what reaches the serve loop, in order;
  \<open>EADDRINUSE\<close> is the platform's value of \<^verbatim>\<open>errno.EADDRINUSE\<close>. The script
  never changes the working directory, so one value of \<open>getcwd\<close> serves the whole run.
  \<^verbatim>\<open>print\<close> is taken to succeed. What \<^verbatim>\<open>SimpleHTTPRequestHandler\<close> does with a request
  once it has its directory (the translation of the request path, the response) is the
  library's and is not modelled.
\<close>

record world =
  getcwd :: string
  script :: string
  abspath :: "string \<Rightarrow> string"
  dirname :: "string \<Rightarrow> string"
  TCPServer_raises :: "exception option"
  webbrowser_raises :: "exception option"
  arrivals :: "arrival list"
  EADDRINUSE :: int

text \<open>The effects of a run, in the order they happen.\<close>

datatype event =
    is_Print: Print string
  | is_Bind: Bind int
  | is_OpenBrowser: OpenBrowser string
  | is_ServeForever: ServeForever
  | is_Handle: Handle string string
  | is_Close: Close

text \<open>
  \<open>Print s\<close> is \<^verbatim>\<open>print(s)\<close>; \<open>Bind p\<close> is the call of the \<^verbatim>\<open>TCPServer\<close> constructor for
  port \<open>p\<close>; \<open>OpenBrowser u\<close> is \<^verbatim>\<open>webbrowser.open(u)\<close>; \<open>ServeForever\<close> is the entry into
  \<^verbatim>\<open>httpd.serve_forever()\<close>; \<open>Handle d p\<close> is the construction of a \<^verbatim>\<open>Handler\<close> with
  \<^verbatim>\<open>directory=d\<close> for a request of path \<open>p\<close>; \<open>Close\<close> is the exit of the \<^verbatim>\<open>with\<close> block,
  which closes the server.

  A run ends in one of three ways: \<^verbatim>\<open>main\<close> returns, an exception leaves \<^verbatim>\<open>main\<close>, or the
  process is still inside \<^verbatim>\<open>serve_forever\<close> when everything that arrived has been served.
\<close>

datatype outcome = Returned | Raised exception | Serving

subsection \<open>The script\<close>

definition PORT :: int where
  "PORT = 8000"

text \<open>
  \<^verbatim>\<open>Handler.__init__\<close>: the directory handed to \<^verbatim>\<open>SimpleHTTPRequestHandler\<close>. The server
  constructs one handler per request, so this is evaluated for every request.
\<close>

definition Handler_init :: "world \<Rightarrow> string" where
  "Handler_init w = dirname w (abspath w (script w))"

definition url :: string where
  "url = ''http://localhost:'' @ str_int PORT"

text \<open>The five \<^verbatim>\<open>print\<close> calls at the head of \<^verbatim>\<open>main\<close>.\<close>

definition status_lines :: "world \<Rightarrow> string list" where
  "status_lines w =
    [emoji_game @ '' Starting CodeRunner Development Server...'',
     emoji_folder @ '' Serving from: '' @ getcwd w,
     emoji_globe @ '' Server running at: http://localhost:'' @ str_int PORT,
     emoji_rocket @ '' Opening game in browser...'',
     emoji_stop_button @ ''  Press Ctrl+C to stop the server'']"

definition stopped_line :: string where
  "stopped_line = [CHR 0x0A] @ emoji_stop_sign @ '' Server stopped by user''"

definition port_in_use_line :: string where
  "port_in_use_line = emoji_cross @ '' Port '' @ str_int PORT @
     '' is already in use. Try a different port or close other servers.''"

definition try_opening_line :: string where
  "try_opening_line = emoji_globe @ '' You can also try opening: http://localhost:'' @ str_int PORT"

definition error_line :: "string \<Rightarrow> string" where
  "error_line e = emoji_cross @ '' Error starting server: '' @ e"

text \<open>
  \<^verbatim>\<open>httpd.serve_forever()\<close>: a handler is constructed for each request; an exception raised
  in the loop leaves it; the call does not return otherwise.
\<close>

fun serve_forever :: "world \<Rightarrow> arrival list \<Rightarrow> event list \<times> exception option" where
  "serve_forever w [] = ([], None)"
| "serve_forever w (Request path # rest) =
     (case serve_forever w rest of (evs, r) \<Rightarrow> (Handle (Handler_init w) path # evs, r))"
| "serve_forever w (Raises e # rest) = ([], Some e)"

text \<open>
  The body of the \<^verbatim>\<open>with\<close> statement, with the close of the server when an exception
  leaves it.
\<close>

definition with_httpd :: "world \<Rightarrow> event list \<times> exception option" where
  "with_httpd w =
    (case webbrowser_raises w of
       Some e \<Rightarrow> ([OpenBrowser url, Close], Some e)
     | None \<Rightarrow>
        (case serve_forever w (arrivals w) of
           (evs, None) \<Rightarrow> ([OpenBrowser url, ServeForever] @ evs, None)
         | (evs, Some e) \<Rightarrow> ([OpenBrowser url, ServeForever] @ evs @ [Close], Some e)))"

text \<open>The body of the \<^verbatim>\<open>try\<close> statement: the constructor, then the \<^verbatim>\<open>with\<close> block.\<close>

definition try_body :: "world \<Rightarrow> event list \<times> exception option" where
  "try_body w =
    (case TCPServer_raises w of
       Some e \<Rightarrow> ([Bind PORT], Some e)
     | None \<Rightarrow> (case with_httpd w of (evs, r) \<Rightarrow> (Bind PORT # evs, r)))"

text \<open>The \<^verbatim>\<open>except\<close> clauses, in the order of the source.\<close>

fun except_clauses :: "exception \<Rightarrow> event list \<times> outcome" where
  "except_clauses KeyboardInterrupt = ([Print stopped_line], Returned)"
| "except_clauses (OSError n e) =
     (if str_contains ''Address already in use'' e
      then ([Print port_in_use_line, Print try_opening_line], Returned)
      else ([Print (error_line e)], Returned))"
| "except_clauses (Exception e) = ([], Raised (Exception e))"

definition main :: "world \<Rightarrow> event list \<times> outcome" where
  "main w =
    (case try_body w of
       (evs, None) \<Rightarrow> (map Print (status_lines w) @ evs, Serving)
     | (evs, Some e) \<Rightarrow>
        (case except_clauses e of (evs', out) \<Rightarrow> (map Print (status_lines w) @ evs @ evs', out)))"

text \<open>
  The exit status of the process: the script calls \<^verbatim>\<open>main()\<close> and nothing else, and never
  calls \<^verbatim>\<open>sys.exit\<close>, so the status is 0 when \<^verbatim>\<open>main\<close> returns and 1 when an exception
  leaves it; a process that is still serving has none.
\<close>

fun exit_status :: "outcome \<Rightarrow> nat option" where
  "exit_status Returned = Some 0"
| "exit_status (Raised e) = Some 1"
| "exit_status Serving = None"

text \<open>
  The port conflict as the operating system reports it: an \<^verbatim>\<open>OSError\<close> whose \<^verbatim>\<open>errno\<close> is
  \<^verbatim>\<open>errno.EADDRINUSE\<close>. The script does not read \<^verbatim>\<open>errno\<close>; the predicate only names
  the condition in the statements below.
\<close>

fun address_in_use :: "world \<Rightarrow> exception \<Rightarrow> bool" where
  "address_in_use w (OSError n e) = (n = Some (EADDRINUSE w))"
| "address_in_use w KeyboardInterrupt = False"
| "address_in_use w (Exception e) = False"

subsection \<open>Example runs\<close>

text \<open>
  The POSIX instance of the \<open>dirname\<close> parameter, \<^verbatim>\<open>posixpath.dirname\<close>: everything up to the
  last slash, without trailing slashes unless it consists of slashes only.
\<close>

definition posix_dirname :: "string \<Rightarrow> string" where
  "posix_dirname p =
    (let head = rev (dropWhile (\<lambda>c. c \<noteq> CHR ''/'') (rev p))
     in if head \<noteq> [] \<and> head \<noteq> replicate (length head) CHR ''/''
        then rev (dropWhile (\<lambda>c. c = CHR ''/'') (rev head)) else head)"

text \<open>
  A run started as \<^verbatim>\<open>python3 CodeRunner/serve.py\<close> from \<^verbatim>\<open>/home/dev\<close>: the port is free, the
  browser opens, two requests are served and Ctrl+C ends the run. \<^verbatim>\<open>__file__\<close> is the
  absolute, normalised path of the script, which \<^verbatim>\<open>abspath\<close> leaves as it is.
\<close>

definition started_elsewhere :: world where
  "started_elsewhere =
    \<lparr>getcwd = ''/home/dev'', script = ''/home/dev/CodeRunner/serve.py'',
     abspath = (\<lambda>p. p), dirname = posix_dirname,
     TCPServer_raises = None, webbrowser_raises = None,
     arrivals = [Request ''/index.html'', Request ''/js/game.js'', Raises KeyboardInterrupt],
     EADDRINUSE = 98\<rparr>"

text \<open>The same run with no Ctrl+C: the process is still serving.\<close>

definition still_serving :: world where
  "still_serving = started_elsewhere\<lparr>arrivals := [Request ''/index.html'']\<rparr>"

text \<open>
  Runs in which the constructor raises: the port is taken, with the text Linux gives the
  error and with the text Windows gives it (\<^verbatim>\<open>WSAEADDRINUSE\<close>, 10048), or binding is not
  permitted. The paths play no part in these runs.
\<close>

definition windows_text :: string where
  "windows_text =
    ''[WinError 10048] Only one usage of each socket address (protocol/network address/port) is normally permitted''"

definition port_taken :: world where
  "port_taken = started_elsewhere
    \<lparr>TCPServer_raises := Some (OSError (Some 98) ''[Errno 98] Address already in use'')\<rparr>"

definition port_taken_windows :: world where
  "port_taken_windows = started_elsewhere
    \<lparr>EADDRINUSE := 10048,
     TCPServer_raises := Some (OSError (Some 10048) windows_text)\<rparr>"

definition permission_denied :: world where
  "permission_denied = started_elsewhere
    \<lparr>TCPServer_raises := Some (OSError (Some 13) ''[Errno 13] Permission denied'')\<rparr>"

text \<open>
  A run in which the listener is bound and \<^verbatim>\<open>webbrowser.open\<close> raises an \<^verbatim>\<open>OSError\<close>, and
  a run in which the constructor raises an exception that is not an \<^verbatim>\<open>OSError\<close>.
\<close>

definition browser_fails :: world where
  "browser_fails = started_elsewhere
    \<lparr>webbrowser_raises := Some (OSError (Some 8) ''[Errno 8] Exec format error'')\<rparr>"

definition out_of_memory :: world where
  "out_of_memory = started_elsewhere
    \<lparr>TCPServer_raises := Some (Exception ''MemoryError'')\<rparr>"

section \<open>Properties\<close>

subsection \<open>Strings and constants\<close>

lemma str_int_8000: "str_int 8000 = ''8000''"
  by (simp add: str_int_def str_nat.simps)

lemma url_eq: "url = ''http://localhost:8000''"
  by (simp add: url_def PORT_def str_int_8000)

lemma startswith_iff: "startswith s p \<longleftrightarrow> (\<exists>post. s = p @ post)"
  by (induction s p rule: startswith.induct) auto

text \<open>\<open>str_contains\<close> is the substring test.\<close>

lemma str_contains_iff: "str_contains sub s \<longleftrightarrow> (\<exists>pre post. s = pre @ sub @ post)"
proof (induction s)
  case Nil
  then show ?case by auto
next
  case (Cons c cs)
  show ?case
  proof
    assume "str_contains sub (c # cs)"
    then consider "startswith (c # cs) sub" | "str_contains sub cs" by auto
    then show "\<exists>pre post. c # cs = pre @ sub @ post"
    proof cases
      case 1
      then obtain post where "c # cs = sub @ post" by (auto simp: startswith_iff)
      then have "c # cs = [] @ sub @ post" by simp
      then show ?thesis by blast
    next
      case 2
      then obtain pre post where "cs = pre @ sub @ post" using Cons.IH by auto
      then have "c # cs = (c # pre) @ sub @ post" by simp
      then show ?thesis by blast
    qed
  next
    assume "\<exists>pre post. c # cs = pre @ sub @ post"
    then obtain pre post where eq: "c # cs = pre @ sub @ post" by auto
    show "str_contains sub (c # cs)"
    proof (cases pre)
      case Nil
      then have "startswith (c # cs) sub" using eq by (auto simp: startswith_iff)
      then show ?thesis by simp
    next
      case (Cons a pre')
      then have "cs = pre' @ sub @ post" using eq by simp
      then have "str_contains sub cs" using Cons.IH by blast
      then show ?thesis by simp
    qed
  qed
qed

lemma posix_dirname_script:
  "posix_dirname ''/home/dev/CodeRunner/serve.py'' = ''/home/dev/CodeRunner''"
  by (simp add: posix_dirname_def)

subsection \<open>The serve loop\<close>

lemma serve_forever_requests:
  "serve_forever w (map Request ps) = (map (Handle (Handler_init w)) ps, None)"
  by (induction ps) simp_all

lemma serve_forever_raise:
  "serve_forever w (map Request ps @ Raises e # rest) =
     (map (Handle (Handler_init w)) ps, Some e)"
  by (induction ps) simp_all

lemma serve_forever_no_Print: "Print x \<notin> set (fst (serve_forever w xs))"
  by (induction w xs rule: serve_forever.induct) (auto split: prod.splits)

text \<open>Whatever arrives is a run of requests, followed by nothing or by a first exception.\<close>

lemma arrivals_split:
  "\<exists>ps tail. xs = map Request ps @ tail \<and> (tail = [] \<or> (\<exists>e r. tail = Raises e # r))"
proof (induction xs)
  case Nil
  then show ?case by simp
next
  case (Cons x xs)
  then obtain ps tail where *: "xs = map Request ps @ tail"
      "tail = [] \<or> (\<exists>e r. tail = Raises e # r)"
    by blast
  show ?case
  proof (cases x)
    case (Request p)
    then have "x # xs = map Request (p # ps) @ tail" using * by simp
    then show ?thesis using *(2) by blast
  next
    case (Raises e)
    then have "x # xs = map Request [] @ (Raises e # xs)" by simp
    then show ?thesis by blast
  qed
qed

subsection \<open>The shape of a run\<close>

lemma filter_Print [simp]:
  "filter is_OpenBrowser (map Print xs) = []"
  "filter is_Bind (map Print xs) = []"
  "filter is_Handle (map Print xs) = []"
  by (induction xs) simp_all

lemma filter_Handle [simp]:
  "filter is_OpenBrowser (map (Handle d) ps) = []"
  "filter is_Bind (map (Handle d) ps) = []"
  "filter is_Handle (map (Handle d) ps) = map (Handle d) ps"
  by (induction ps) simp_all

lemma except_clauses_prints:
  "filter is_OpenBrowser (fst (except_clauses e)) = []"
  "filter is_Bind (fst (except_clauses e)) = []"
  "filter is_Handle (fst (except_clauses e)) = []"
  by (cases e; simp)+

lemma except_clauses_not_Serving: "snd (except_clauses e) \<noteq> Serving"
  by (cases e) simp_all

text \<open>The constructor raises: the \<^verbatim>\<open>with\<close> block is never entered.\<close>

lemma main_not_bound:
  assumes "TCPServer_raises w = Some e"
  shows "main w = (map Print (status_lines w) @ [Bind 8000] @ fst (except_clauses e),
                   snd (except_clauses e))"
  using assms by (simp add: main_def try_body_def PORT_def split: prod.splits)

text \<open>The listener is bound and \<^verbatim>\<open>webbrowser.open\<close> raises.\<close>

lemma main_browser_failed:
  assumes "TCPServer_raises w = None" and "webbrowser_raises w = Some e"
  shows "main w =
    (map Print (status_lines w) @ [Bind 8000, OpenBrowser ''http://localhost:8000'', Close] @
     fst (except_clauses e), snd (except_clauses e))"
  using assms
  by (simp add: main_def try_body_def with_httpd_def PORT_def url_eq split: prod.splits)

text \<open>The server started and nothing has ended the loop.\<close>

lemma main_serving:
  assumes "TCPServer_raises w = None" and "webbrowser_raises w = None"
    and "arrivals w = map Request ps"
  shows "main w =
    (map Print (status_lines w) @
     [Bind 8000, OpenBrowser ''http://localhost:8000'', ServeForever] @
     map (Handle (Handler_init w)) ps, Serving)"
  using assms
  by (simp add: main_def try_body_def with_httpd_def PORT_def url_eq serve_forever_requests)

text \<open>The server started and an exception ended the loop.\<close>

lemma main_served:
  assumes "TCPServer_raises w = None" and "webbrowser_raises w = None"
    and "arrivals w = map Request ps @ Raises e # rest"
  shows "main w =
    (map Print (status_lines w) @
     [Bind 8000, OpenBrowser ''http://localhost:8000'', ServeForever] @
     map (Handle (Handler_init w)) ps @ [Close] @ fst (except_clauses e),
     snd (except_clauses e))"
  using assms
  by (simp add: main_def try_body_def with_httpd_def PORT_def url_eq serve_forever_raise
      split: prod.splits)

lemma try_body_no_Print: "Print x \<notin> set (fst (try_body w))"
  using serve_forever_no_Print [of x w "arrivals w"]
  by (auto simp: try_body_def with_httpd_def split: option.splits prod.splits)

lemma main_raised:
  assumes "snd (try_body w) = Some e"
  shows "fst (main w) = map Print (status_lines w) @ fst (try_body w) @ fst (except_clauses e)"
  using assms by (auto simp: main_def split: prod.splits option.splits)

lemma status_lines_not_cross: "emoji_cross @ s \<notin> set (status_lines w)"
  by (simp add: status_lines_def emoji_cross_def emoji_game_def emoji_folder_def
      emoji_globe_def emoji_rocket_def emoji_stop_button_def)

section \<open>The claims\<close>

subsection \<open>Errors at start-up\<close>

text \<open>
  The launcher reports the port conflict when the text of the error holds
  \<^verbatim>\<open>Address already in use\<close>, the text POSIX systems give it: after the status lines it
  prints a line that names port 8000 and suggests a different port or closing the other
  server, then a line with the URL, and returns. The constructor is called once and
  \<^verbatim>\<open>serve_forever\<close> is never entered.
\<close>

lemma port_conflict_reported:
  assumes "TCPServer_raises w = Some (OSError n e)"
    and "str_contains ''Address already in use'' e"
  shows "main w =
      (map Print (status_lines w) @
       [Bind 8000,
        Print (emoji_cross @
          '' Port 8000 is already in use. Try a different port or close other servers.''),
        Print (emoji_globe @ '' You can also try opening: http://localhost:8000'')],
       Returned)
    \<and> length (filter is_Bind (fst (main w))) = 1
    \<and> ServeForever \<notin> set (fst (main w))"
  using assms
  by (auto simp: main_def try_body_def port_in_use_line_def try_opening_line_def
      str_int_8000 PORT_def)

lemma port_conflict_reported_on_linux:
  "TCPServer_raises port_taken = Some (OSError (Some 98) ''[Errno 98] Address already in use'')
   \<and> address_in_use port_taken (OSError (Some 98) ''[Errno 98] Address already in use'')
   \<and> main port_taken =
       (map Print (status_lines port_taken) @
        [Bind 8000,
         Print (emoji_cross @
           '' Port 8000 is already in use. Try a different port or close other servers.''),
         Print (emoji_globe @ '' You can also try opening: http://localhost:8000'')],
        Returned)"
proof -
  have raised: "TCPServer_raises port_taken = Some (OSError (Some 98) ''[Errno 98] Address already in use'')"
    by (simp add: port_taken_def)
  have in_use: "address_in_use port_taken (OSError (Some 98) ''[Errno 98] Address already in use'')"
    by (simp add: port_taken_def started_elsewhere_def)
  have occurs: "str_contains ''Address already in use'' ''[Errno 98] Address already in use''"
    by simp
  show ?thesis
    using port_conflict_reported [OF raised occurs] raised in_use by blast
qed

text \<open>
  Claim C1. The claim holds of the run above and fails of a port conflict on Windows.
  There the constructor raises the \<^verbatim>\<open>OSError\<close> of a port that is already in use (its
  \<^verbatim>\<open>errno\<close> is \<^verbatim>\<open>errno.EADDRINUSE\<close>) with a text that does not hold
  \<^verbatim>\<open>Address already in use\<close>. The launcher still calls the constructor once, never enters
  \<^verbatim>\<open>serve_forever\<close> and returns, but the one line it prints after the status lines is the
  generic one: it does not name port 8000 and suggests no remedy, and the port line is not
  printed.
\<close>

theorem port_conflict_unreported_on_windows:
  "TCPServer_raises port_taken_windows = Some (OSError (Some 10048) windows_text)
   \<and> address_in_use port_taken_windows (OSError (Some 10048) windows_text)
   \<and> main port_taken_windows =
       (map Print (status_lines port_taken_windows) @
        [Bind 8000, Print (emoji_cross @ '' Error starting server: '' @ windows_text)],
        Returned)
   \<and> length (filter is_Bind (fst (main port_taken_windows))) = 1
   \<and> ServeForever \<notin> set (fst (main port_taken_windows))
   \<and> \<not> str_contains ''8000'' (emoji_cross @ '' Error starting server: '' @ windows_text)
   \<and> Print (emoji_cross @
         '' Port 8000 is already in use. Try a different port or close other servers.'')
       \<notin> set (fst (main port_taken_windows))"
proof -
  have raised: "TCPServer_raises port_taken_windows = Some (OSError (Some 10048) windows_text)"
    by (simp add: port_taken_windows_def)
  have in_use: "address_in_use port_taken_windows (OSError (Some 10048) windows_text)"
    by (simp add: port_taken_windows_def)
  have absent: "\<not> str_contains ''Address already in use'' windows_text"
    by (simp add: windows_text_def)
  have run: "main port_taken_windows =
      (map Print (status_lines port_taken_windows) @
       [Bind 8000, Print (emoji_cross @ '' Error starting server: '' @ windows_text)],
       Returned)"
    using main_not_bound [OF raised] absent by (simp add: error_line_def)
  have once: "length (filter is_Bind (fst (main port_taken_windows))) = 1"
    unfolding run by simp
  have never: "ServeForever \<notin> set (fst (main port_taken_windows))"
    unfolding run by auto
  have unnamed:
    "\<not> str_contains ''8000'' (emoji_cross @ '' Error starting server: '' @ windows_text)"
    by (simp add: windows_text_def emoji_cross_def)
  have unreported: "Print (emoji_cross @
        '' Port 8000 is already in use. Try a different port or close other servers.'')
      \<notin> set (fst (main port_taken_windows))"
    unfolding run
    using status_lines_not_cross
      [of "'' Port 8000 is already in use. Try a different port or close other servers.''"
        port_taken_windows]
    by auto
  show ?thesis
    using raised in_use run once never unnamed unreported by blast
qed

text \<open>
  Claim C6, as amended. For an exception raised at start-up, by the constructor or by
  \<^verbatim>\<open>webbrowser.open\<close>, the run is fixed by the class of the exception. An \<^verbatim>\<open>OSError\<close>
  that is not classified as the port conflict gives one line after the effects of the
  start, \<^verbatim>\<open>Error starting server:\<close> followed by the text of the error; an \<^verbatim>\<open>OSError\<close> and a
  \<^verbatim>\<open>KeyboardInterrupt\<close> are caught, \<^verbatim>\<open>main\<close> returns and the exit status is 0. An exception
  of any other class is not caught: nothing is printed for it, it leaves \<^verbatim>\<open>main\<close>, and the
  exit status is 1. The constructor is called once in every case (no retry).
\<close>

theorem startup_error_paths:
  assumes "TCPServer_raises w = Some x \<or>
           (TCPServer_raises w = None \<and> webbrowser_raises w = Some x)"
  shows "main w =
      (map Print (status_lines w) @
       Bind 8000 #
       (if TCPServer_raises w = None then [OpenBrowser ''http://localhost:8000'', Close]
        else []) @
       (case x of
          OSError n e \<Rightarrow>
            if str_contains ''Address already in use'' e
            then [Print (emoji_cross @
                    '' Port 8000 is already in use. Try a different port or close other servers.''),
                  Print (emoji_globe @ '' You can also try opening: http://localhost:8000'')]
            else [Print (emoji_cross @ '' Error starting server: '' @ e)]
        | KeyboardInterrupt \<Rightarrow>
            [Print ([CHR 0x0A] @ emoji_stop_sign @ '' Server stopped by user'')]
        | Exception c \<Rightarrow> []),
       case x of Exception c \<Rightarrow> Raised (Exception c) | _ \<Rightarrow> Returned)
    \<and> exit_status (snd (main w)) = (case x of Exception c \<Rightarrow> Some 1 | _ \<Rightarrow> Some 0)
    \<and> length (filter is_Bind (fst (main w))) = 1"
proof -
  have lines: "fst (except_clauses x) =
      (case x of
          OSError n e \<Rightarrow>
            if str_contains ''Address already in use'' e
            then [Print (emoji_cross @
                    '' Port 8000 is already in use. Try a different port or close other servers.''),
                  Print (emoji_globe @ '' You can also try opening: http://localhost:8000'')]
            else [Print (emoji_cross @ '' Error starting server: '' @ e)]
        | KeyboardInterrupt \<Rightarrow>
            [Print ([CHR 0x0A] @ emoji_stop_sign @ '' Server stopped by user'')]
        | Exception c \<Rightarrow> [])"
    by (cases x)
      (simp_all add: port_in_use_line_def try_opening_line_def error_line_def stopped_line_def
        PORT_def str_int_8000)
  have ends: "snd (except_clauses x) =
      (case x of Exception c \<Rightarrow> Raised (Exception c) | _ \<Rightarrow> Returned)"
    by (cases x) simp_all
  have status: "exit_status (snd (except_clauses x)) =
      (case x of Exception c \<Rightarrow> Some 1 | _ \<Rightarrow> Some 0)"
    by (cases x) simp_all
  from assms show ?thesis
  proof
    assume raised: "TCPServer_raises w = Some x"
    have run: "main w =
        (map Print (status_lines w) @ [Bind 8000] @ fst (except_clauses x),
         snd (except_clauses x))"
      using main_not_bound [OF raised] .
    have once: "length (filter is_Bind (fst (main w))) = 1"
      unfolding run by (simp add: except_clauses_prints)
    have code: "exit_status (snd (main w)) =
        (case x of Exception c \<Rightarrow> Some 1 | _ \<Rightarrow> Some 0)"
      unfolding run using status by simp
    have shape: "main w =
        (map Print (status_lines w) @
         Bind 8000 #
         (if TCPServer_raises w = None then [OpenBrowser ''http://localhost:8000'', Close]
          else []) @
         fst (except_clauses x),
         snd (except_clauses x))"
      unfolding run using raised by simp
    show ?thesis
      using shape code once unfolding lines ends by blast
  next
    assume "TCPServer_raises w = None \<and> webbrowser_raises w = Some x"
    then have bound: "TCPServer_raises w = None" and raised: "webbrowser_raises w = Some x"
      by simp_all
    have run: "main w =
        (map Print (status_lines w) @
         [Bind 8000, OpenBrowser ''http://localhost:8000'', Close] @ fst (except_clauses x),
         snd (except_clauses x))"
      using main_browser_failed [OF bound raised] .
    have once: "length (filter is_Bind (fst (main w))) = 1"
      unfolding run by (simp add: except_clauses_prints)
    have code: "exit_status (snd (main w)) =
        (case x of Exception c \<Rightarrow> Some 1 | _ \<Rightarrow> Some 0)"
      unfolding run using status by simp
    have shape: "main w =
        (map Print (status_lines w) @
         Bind 8000 #
         (if TCPServer_raises w = None then [OpenBrowser ''http://localhost:8000'', Close]
          else []) @
         fst (except_clauses x),
         snd (except_clauses x))"
      unfolding run using bound by simp
    show ?thesis
      using shape code once unfolding lines ends by blast
  qed
qed

theorem startup_error_paths_witness:
  "TCPServer_raises permission_denied = Some (OSError (Some 13) ''[Errno 13] Permission denied'')
   \<and> main permission_denied =
       (map Print (status_lines permission_denied) @
        [Bind 8000,
         Print (emoji_cross @ '' Error starting server: [Errno 13] Permission denied'')],
        Returned)
   \<and> exit_status (snd (main permission_denied)) = Some 0
   \<and> TCPServer_raises browser_fails = None
   \<and> webbrowser_raises browser_fails = Some (OSError (Some 8) ''[Errno 8] Exec format error'')
   \<and> main browser_fails =
       (map Print (status_lines browser_fails) @
        [Bind 8000, OpenBrowser ''http://localhost:8000'', Close,
         Print (emoji_cross @ '' Error starting server: [Errno 8] Exec format error'')],
        Returned)
   \<and> exit_status (snd (main browser_fails)) = Some 0"
proof -
  have denied: "TCPServer_raises permission_denied =
      Some (OSError (Some 13) ''[Errno 13] Permission denied'')"
    by (simp add: permission_denied_def)
  have bound: "TCPServer_raises browser_fails = None"
    by (simp add: browser_fails_def started_elsewhere_def)
  have failed: "webbrowser_raises browser_fails =
      Some (OSError (Some 8) ''[Errno 8] Exec format error'')"
    by (simp add: browser_fails_def)
  have first: "TCPServer_raises permission_denied =
        Some (OSError (Some 13) ''[Errno 13] Permission denied'') \<or>
      (TCPServer_raises permission_denied = None \<and>
       webbrowser_raises permission_denied =
         Some (OSError (Some 13) ''[Errno 13] Permission denied''))"
    using denied by simp
  have second: "TCPServer_raises browser_fails =
        Some (OSError (Some 8) ''[Errno 8] Exec format error'') \<or>
      (TCPServer_raises browser_fails = None \<and>
       webbrowser_raises browser_fails =
         Some (OSError (Some 8) ''[Errno 8] Exec format error''))"
    using bound failed by simp
  have run1: "main permission_denied =
       (map Print (status_lines permission_denied) @
        [Bind 8000,
         Print (emoji_cross @ '' Error starting server: [Errno 13] Permission denied'')],
        Returned)
      \<and> exit_status (snd (main permission_denied)) = Some 0"
    using startup_error_paths [OF first] denied by simp
  have run2: "main browser_fails =
       (map Print (status_lines browser_fails) @
        [Bind 8000, OpenBrowser ''http://localhost:8000'', Close,
         Print (emoji_cross @ '' Error starting server: [Errno 8] Exec format error'')],
        Returned)
      \<and> exit_status (snd (main browser_fails)) = Some 0"
    using startup_error_paths [OF second] bound by simp
  show ?thesis
    using denied bound failed run1 run2 by blast
qed

text \<open>
  The claim as it stands, for every start-up error and every error path, fails where the
  constructor raises an exception that is not an \<^verbatim>\<open>OSError\<close>: no error line is printed,
  the exception leaves \<^verbatim>\<open>main\<close>, and the exit status is not 0.
\<close>

theorem uncaught_startup_error_counterexample:
  "TCPServer_raises out_of_memory = Some (Exception ''MemoryError'')
   \<and> main out_of_memory =
       (map Print (status_lines out_of_memory) @ [Bind 8000],
        Raised (Exception ''MemoryError''))
   \<and> exit_status (snd (main out_of_memory)) = Some 1"
proof -
  have raised: "TCPServer_raises out_of_memory = Some (Exception ''MemoryError'')"
    by (simp add: out_of_memory_def)
  show ?thesis
    using main_not_bound [OF raised] raised by simp
qed

text \<open>
  Claim C9. An \<^verbatim>\<open>OSError\<close> that leaves the \<^verbatim>\<open>try\<close> body is reported as the port conflict
  if and only if \<^verbatim>\<open>Address already in use\<close> is a substring of its text, and through the
  generic line otherwise: an address-in-use failure with another text (the Windows one,
  in the example run) takes the generic branch.
\<close>

theorem conflict_classified_by_text:
  assumes "snd (try_body w) = Some (OSError n e)"
  shows "(Print (emoji_cross @
            '' Port 8000 is already in use. Try a different port or close other servers.'')
            \<in> set (fst (main w)) \<longleftrightarrow> str_contains ''Address already in use'' e)
    \<and> (Print (emoji_cross @ '' Error starting server: '' @ e) \<in> set (fst (main w))
            \<longleftrightarrow> \<not> str_contains ''Address already in use'' e)
    \<and> (str_contains ''Address already in use'' e
            \<longleftrightarrow> (\<exists>pre post. e = pre @ ''Address already in use'' @ post))"
proof -
  have trace: "fst (main w) =
      map Print (status_lines w) @ fst (try_body w) @ fst (except_clauses (OSError n e))"
    using main_raised [OF assms] .
  have a: "Print (emoji_cross @ s) \<in> set (fst (main w)) \<longleftrightarrow>
           Print (emoji_cross @ s) \<in> set (fst (except_clauses (OSError n e)))" for s
    unfolding trace using status_lines_not_cross [of s w] try_body_no_Print [of _ w]
    by auto
  have b: "Print (emoji_cross @
            '' Port 8000 is already in use. Try a different port or close other servers.'')
            \<in> set (fst (except_clauses (OSError n e)))
          \<longleftrightarrow> str_contains ''Address already in use'' e"
    by (simp add: port_in_use_line_def try_opening_line_def error_line_def PORT_def
        str_int_8000 emoji_cross_def emoji_globe_def)
  have c: "Print (emoji_cross @ '' Error starting server: '' @ e)
            \<in> set (fst (except_clauses (OSError n e)))
          \<longleftrightarrow> \<not> str_contains ''Address already in use'' e"
    by (simp add: port_in_use_line_def try_opening_line_def error_line_def PORT_def
        str_int_8000 emoji_cross_def emoji_globe_def)
  show ?thesis
    using a b c str_contains_iff [of "''Address already in use''" e] by simp
qed

theorem conflict_classified_by_text_witness:
  "snd (try_body port_taken_windows) = Some (OSError (Some 10048) windows_text)
   \<and> address_in_use port_taken_windows (OSError (Some 10048) windows_text)
   \<and> \<not> str_contains ''Address already in use'' windows_text
   \<and> Print (emoji_cross @
         '' Port 8000 is already in use. Try a different port or close other servers.'')
       \<notin> set (fst (main port_taken_windows))
   \<and> Print (emoji_cross @ '' Error starting server: '' @ windows_text)
       \<in> set (fst (main port_taken_windows))"
proof -
  have raised: "snd (try_body port_taken_windows) = Some (OSError (Some 10048) windows_text)"
    by (simp add: try_body_def port_taken_windows_def)
  have in_use: "address_in_use port_taken_windows (OSError (Some 10048) windows_text)"
    by (simp add: port_taken_windows_def)
  have absent: "\<not> str_contains ''Address already in use'' windows_text"
    by (simp add: windows_text_def)
  show ?thesis
    using conflict_classified_by_text [OF raised] raised in_use absent by simp
qed

text \<open>
  Claim C10. In every run in which the server constructor raises, \<^verbatim>\<open>webbrowser.open\<close> is
  never called.
\<close>

theorem no_browser_without_listener:
  assumes "TCPServer_raises w = Some e"
  shows "\<forall>u. OpenBrowser u \<notin> set (fst (main w))"
  using main_not_bound [OF assms]
  by (cases e) auto

theorem no_browser_without_listener_witness:
  "TCPServer_raises port_taken = Some (OSError (Some 98) ''[Errno 98] Address already in use'')
   \<and> (\<forall>u. OpenBrowser u \<notin> set (fst (main port_taken)))"
proof -
  have raised: "TCPServer_raises port_taken = Some (OSError (Some 98) ''[Errno 98] Address already in use'')"
    by (simp add: port_taken_def)
  show ?thesis
    using no_browser_without_listener [OF raised] raised by simp
qed

text \<open>
  When the browser is opened, the constructor has returned: the call comes right after
  the bind in the sequence of effects, with the root URL.
\<close>

lemma except_clauses_no_browser: "OpenBrowser u \<notin> set (fst (except_clauses e))"
  by (cases e) auto

lemma browser_after_bind:
  assumes "OpenBrowser u \<in> set (fst (main w))"
  shows "TCPServer_raises w = None \<and> u = ''http://localhost:8000'' \<and>
    (\<exists>rest. fst (main w) = map Print (status_lines w) @ Bind 8000 # OpenBrowser u # rest)"
proof (cases "TCPServer_raises w")
  case (Some e)
  then show ?thesis
    using main_not_bound [OF Some] assms except_clauses_no_browser [of u e] by auto
next
  case None
  show ?thesis
  proof (cases "webbrowser_raises w")
    case (Some e)
    then show ?thesis
      using main_browser_failed [OF None Some] assms None except_clauses_no_browser [of u e]
      by auto
  next
    case wb: None
    obtain ps tail where split: "arrivals w = map Request ps @ tail"
      and tail: "tail = [] \<or> (\<exists>e r. tail = Raises e # r)"
      using arrivals_split by blast
    from tail show ?thesis
    proof
      assume "tail = []"
      then have "arrivals w = map Request ps" using split by simp
      then show ?thesis
        using main_serving [OF None wb] assms None by auto
    next
      assume "\<exists>e r. tail = Raises e # r"
      then obtain e r where arr: "arrivals w = map Request ps @ Raises e # r"
        using split by auto
      show ?thesis
        using main_served [OF None wb arr] assms None except_clauses_no_browser [of u e]
        by auto
    qed
  qed
qed

subsection \<open>A successful start\<close>

text \<open>
  Claim C3. When the constructor and \<^verbatim>\<open>webbrowser.open\<close> raise nothing, the run is, in this
  order: the five status lines (the second with the working directory, the third with the
  URL), the bind of port 8000, the call of \<^verbatim>\<open>webbrowser.open\<close> with
  \<^verbatim>\<open>http://localhost:8000\<close>, the entry into the serve loop, and one handler for each request
  that arrives, in the order of arrival. The process stays in the loop while nothing but
  requests arrives; the first exception that arrives there ends the loop, closes the
  server and is handed to the \<^verbatim>\<open>except\<close> clauses. The browser is opened once and the port
  bound once in the whole run.
\<close>

theorem startup_order:
  assumes "TCPServer_raises w = None" and "webbrowser_raises w = None"
    and "arrivals w = map Request ps @ tail"
    and "tail = [] \<or> tail = Raises e # r"
  shows "main w =
      ([Print ([CHR 0xF0, CHR 0x9F, CHR 0x8E, CHR 0xAE] @
          '' Starting CodeRunner Development Server...''),
        Print ([CHR 0xF0, CHR 0x9F, CHR 0x93, CHR 0x81] @ '' Serving from: '' @ getcwd w),
        Print ([CHR 0xF0, CHR 0x9F, CHR 0x8C, CHR 0x90] @
          '' Server running at: http://localhost:8000''),
        Print ([CHR 0xF0, CHR 0x9F, CHR 0x9A, CHR 0x80] @ '' Opening game in browser...''),
        Print ([CHR 0xE2, CHR 0x8F, CHR 0xB9, CHR 0xEF, CHR 0xB8, CHR 0x8F] @
          ''  Press Ctrl+C to stop the server''),
        Bind 8000,
        OpenBrowser ''http://localhost:8000'',
        ServeForever] @
       map (Handle (dirname w (abspath w (script w)))) ps @
       (if tail = [] then [] else Close # fst (except_clauses e)),
       if tail = [] then Serving else snd (except_clauses e))
    \<and> length (filter is_OpenBrowser (fst (main w))) = 1
    \<and> length (filter is_Bind (fst (main w))) = 1"
proof -
  have lines: "map Print (status_lines w) =
      [Print ([CHR 0xF0, CHR 0x9F, CHR 0x8E, CHR 0xAE] @
          '' Starting CodeRunner Development Server...''),
        Print ([CHR 0xF0, CHR 0x9F, CHR 0x93, CHR 0x81] @ '' Serving from: '' @ getcwd w),
        Print ([CHR 0xF0, CHR 0x9F, CHR 0x8C, CHR 0x90] @
          '' Server running at: http://localhost:8000''),
        Print ([CHR 0xF0, CHR 0x9F, CHR 0x9A, CHR 0x80] @ '' Opening game in browser...''),
        Print ([CHR 0xE2, CHR 0x8F, CHR 0xB9, CHR 0xEF, CHR 0xB8, CHR 0x8F] @
          ''  Press Ctrl+C to stop the server'')]"
    by (simp add: status_lines_def emoji_game_def emoji_folder_def emoji_globe_def
        emoji_rocket_def emoji_stop_button_def PORT_def str_int_8000)
  from assms(4) show ?thesis
  proof
    assume empty: "tail = []"
    then have arr: "arrivals w = map Request ps" using assms(3) by simp
    have run: "main w =
        (map Print (status_lines w) @
         [Bind 8000, OpenBrowser ''http://localhost:8000'', ServeForever] @
         map (Handle (Handler_init w)) ps, Serving)"
      using main_serving [OF assms(1) assms(2) arr] .
    have shape: "main w =
        (map Print (status_lines w) @
         [Bind 8000, OpenBrowser ''http://localhost:8000'', ServeForever] @
         map (Handle (dirname w (abspath w (script w)))) ps @
         (if tail = [] then [] else Close # fst (except_clauses e)),
         if tail = [] then Serving else snd (except_clauses e))"
      using run empty by (simp add: Handler_init_def)
    have counts: "length (filter is_OpenBrowser (fst (main w))) = 1 \<and>
        length (filter is_Bind (fst (main w))) = 1"
      unfolding run by simp
    show ?thesis
      using shape counts unfolding lines by simp
  next
    assume raised: "tail = Raises e # r"
    then have arr: "arrivals w = map Request ps @ Raises e # r" using assms(3) by simp
    have run: "main w =
        (map Print (status_lines w) @
         [Bind 8000, OpenBrowser ''http://localhost:8000'', ServeForever] @
         map (Handle (Handler_init w)) ps @ [Close] @ fst (except_clauses e),
         snd (except_clauses e))"
      using main_served [OF assms(1) assms(2) arr] .
    have shape: "main w =
        (map Print (status_lines w) @
         [Bind 8000, OpenBrowser ''http://localhost:8000'', ServeForever] @
         map (Handle (dirname w (abspath w (script w)))) ps @
         (if tail = [] then [] else Close # fst (except_clauses e)),
         if tail = [] then Serving else snd (except_clauses e))"
      using run raised by (simp add: Handler_init_def)
    have counts: "length (filter is_OpenBrowser (fst (main w))) = 1 \<and>
        length (filter is_Bind (fst (main w))) = 1"
      unfolding run by (simp add: except_clauses_prints)
    show ?thesis
      using shape counts unfolding lines by simp
  qed
qed

theorem startup_order_witness:
  "TCPServer_raises still_serving = None \<and> webbrowser_raises still_serving = None
   \<and> arrivals still_serving = map Request [''/index.html''] @ []
   \<and> main still_serving =
      ([Print ([CHR 0xF0, CHR 0x9F, CHR 0x8E, CHR 0xAE] @
          '' Starting CodeRunner Development Server...''),
        Print ([CHR 0xF0, CHR 0x9F, CHR 0x93, CHR 0x81] @ '' Serving from: /home/dev''),
        Print ([CHR 0xF0, CHR 0x9F, CHR 0x8C, CHR 0x90] @
          '' Server running at: http://localhost:8000''),
        Print ([CHR 0xF0, CHR 0x9F, CHR 0x9A, CHR 0x80] @ '' Opening game in browser...''),
        Print ([CHR 0xE2, CHR 0x8F, CHR 0xB9, CHR 0xEF, CHR 0xB8, CHR 0x8F] @
          ''  Press Ctrl+C to stop the server''),
        Bind 8000,
        OpenBrowser ''http://localhost:8000'',
        ServeForever,
        Handle ''/home/dev/CodeRunner'' ''/index.html''],
       Serving)
   \<and> length (filter is_OpenBrowser (fst (main still_serving))) = 1"
proof -
  have bound: "TCPServer_raises still_serving = None"
    by (simp add: still_serving_def started_elsewhere_def)
  have opened: "webbrowser_raises still_serving = None"
    by (simp add: still_serving_def started_elsewhere_def)
  have arr: "arrivals still_serving = map Request [''/index.html''] @ []"
    by (simp add: still_serving_def started_elsewhere_def)
  have quiet: "([]::arrival list) = [] \<or> [] = Raises KeyboardInterrupt # []"
    by simp
  have cwd: "getcwd still_serving = ''/home/dev''"
    by (simp add: still_serving_def started_elsewhere_def)
  have root: "dirname still_serving (abspath still_serving (script still_serving)) =
      ''/home/dev/CodeRunner''"
    by (simp add: still_serving_def started_elsewhere_def posix_dirname_script)
  show ?thesis
    using startup_order [OF bound opened arr quiet] bound opened arr cwd root by simp
qed

text \<open>
  Claim C2. When the server has started and the exception that ends the serve loop is a
  \<^verbatim>\<open>KeyboardInterrupt\<close>, the server is closed, the stop confirmation is the last thing
  printed, \<^verbatim>\<open>main\<close> returns (no exception leaves it) and the exit status is 0.
\<close>

theorem keyboard_interrupt_stops:
  assumes "TCPServer_raises w = None" and "webbrowser_raises w = None"
    and "arrivals w = map Request ps @ Raises KeyboardInterrupt # rest"
  shows "main w =
      (map Print (status_lines w) @
       [Bind 8000, OpenBrowser ''http://localhost:8000'', ServeForever] @
       map (Handle (Handler_init w)) ps @
       [Close, Print ([CHR 0x0A] @ emoji_stop_sign @ '' Server stopped by user'')],
       Returned)
    \<and> exit_status (snd (main w)) = Some 0"
  using main_served [OF assms]
  by (simp add: stopped_line_def)

theorem keyboard_interrupt_stops_witness:
  "TCPServer_raises started_elsewhere = None \<and> webbrowser_raises started_elsewhere = None
   \<and> arrivals started_elsewhere =
       map Request [''/index.html'', ''/js/game.js''] @ Raises KeyboardInterrupt # []
   \<and> snd (main started_elsewhere) = Returned
   \<and> exit_status (snd (main started_elsewhere)) = Some 0
   \<and> last (fst (main started_elsewhere)) =
       Print ([CHR 0x0A] @ emoji_stop_sign @ '' Server stopped by user'')"
proof -
  have bound: "TCPServer_raises started_elsewhere = None"
    by (simp add: started_elsewhere_def)
  have opened: "webbrowser_raises started_elsewhere = None"
    by (simp add: started_elsewhere_def)
  have arr: "arrivals started_elsewhere =
      map Request [''/index.html'', ''/js/game.js''] @ Raises KeyboardInterrupt # []"
    by (simp add: started_elsewhere_def)
  show ?thesis
    using keyboard_interrupt_stops [OF bound opened arr] bound opened arr by simp
qed

subsection \<open>The serving root\<close>

text \<open>
  Claim C4. Every handler the run constructs gets the same directory, the \<^verbatim>\<open>dirname\<close> of
  the \<^verbatim>\<open>abspath\<close> of the script's \<^verbatim>\<open>__file__\<close>: the handlers of a run are those of the
  requests that arrive before the first exception, in order, each with that directory
  (and there is none when the server did not start).
\<close>

theorem serving_root_fixed:
  assumes "arrivals w = map Request ps @ tail"
    and "tail = [] \<or> (\<exists>e r. tail = Raises e # r)"
  shows "filter is_Handle (fst (main w)) =
    (if TCPServer_raises w = None \<and> webbrowser_raises w = None
     then map (Handle (dirname w (abspath w (script w)))) ps else [])"
proof (cases "TCPServer_raises w")
  case (Some e)
  then show ?thesis
    using main_not_bound [OF Some] by (simp add: except_clauses_prints)
next
  case None
  show ?thesis
  proof (cases "webbrowser_raises w")
    case (Some e)
    then show ?thesis
      using main_browser_failed [OF None Some] by (simp add: except_clauses_prints)
  next
    case wb: None
    from assms(2) show ?thesis
    proof
      assume "tail = []"
      then have "arrivals w = map Request ps" using assms(1) by simp
      then show ?thesis
        using main_serving [OF None wb] None wb by (simp add: Handler_init_def)
    next
      assume "\<exists>e r. tail = Raises e # r"
      then obtain e r where arr: "arrivals w = map Request ps @ Raises e # r"
        using assms(1) by auto
      show ?thesis
        using main_served [OF None wb arr] None wb
        by (simp add: Handler_init_def except_clauses_prints)
    qed
  qed
qed

theorem serving_root_fixed_witness:
  "arrivals started_elsewhere =
     map Request [''/index.html'', ''/js/game.js''] @ [Raises KeyboardInterrupt]
   \<and> dirname started_elsewhere (abspath started_elsewhere (script started_elsewhere)) =
       ''/home/dev/CodeRunner''
   \<and> filter is_Handle (fst (main started_elsewhere)) =
       [Handle ''/home/dev/CodeRunner'' ''/index.html'',
        Handle ''/home/dev/CodeRunner'' ''/js/game.js'']"
proof -
  have arr: "arrivals started_elsewhere =
      map Request [''/index.html'', ''/js/game.js''] @ [Raises KeyboardInterrupt]"
    by (simp add: started_elsewhere_def)
  have tail: "[Raises KeyboardInterrupt] = [] \<or>
      (\<exists>e r. [Raises KeyboardInterrupt] = Raises e # r)"
    by simp
  have root: "dirname started_elsewhere (abspath started_elsewhere (script started_elsewhere)) =
      ''/home/dev/CodeRunner''"
    by (simp add: started_elsewhere_def posix_dirname_script)
  have started: "TCPServer_raises started_elsewhere = None \<and>
      webbrowser_raises started_elsewhere = None"
    by (simp add: started_elsewhere_def)
  show ?thesis
    using serving_root_fixed [OF arr tail] arr root started by simp
qed

text \<open>
  Every run begins with the status lines, and the second of them gives the working
  directory of the process, whatever the directory of the handler is.
\<close>

lemma main_begins_with_status_lines:
  "\<exists>rest. fst (main w) = map Print (status_lines w) @ rest"
  by (auto simp: main_def split: prod.splits option.splits)

lemma serving_from_line:
  "fst (main w) ! 1 = Print (emoji_folder @ '' Serving from: '' @ getcwd w)"
proof -
  obtain rest where "fst (main w) = map Print (status_lines w) @ rest"
    using main_begins_with_status_lines by blast
  then show ?thesis
    by (simp add: status_lines_def)
qed

text \<open>
  A \<^verbatim>\<open>KeyboardInterrupt\<close> is caught wherever it is raised in the \<^verbatim>\<open>try\<close> body: \<^verbatim>\<open>main\<close>
  returns after the stop confirmation.
\<close>

lemma interrupt_caught:
  assumes "snd (try_body w) = Some KeyboardInterrupt"
  shows "snd (main w) = Returned \<and> last (fst (main w)) = Print stopped_line"
  using assms by (auto simp: main_def split: prod.splits option.splits)

text \<open>An exception leaves \<^verbatim>\<open>main\<close> only when no clause catches it.\<close>

lemma main_raises_uncaught:
  assumes "snd (main w) = Raised x"
  shows "\<exists>e. x = Exception e \<and> snd (try_body w) = Some x"
proof -
  obtain evs r where body: "try_body w = (evs, r)" by (cases "try_body w")
  show ?thesis
  proof (cases r)
    case None
    then show ?thesis using assms body by (simp add: main_def)
  next
    case (Some y)
    then show ?thesis
      using assms body by (cases y) (auto simp: main_def split: if_splits)
  qed
qed

text \<open>
  Claim C5. The path of the \<^verbatim>\<open>Serving from\<close> line is \<^verbatim>\<open>os.getcwd()\<close>, not the directory
  of the handler: in the run started from \<^verbatim>\<open>/home/dev\<close> the line names \<^verbatim>\<open>/home/dev\<close>
  while every request is served from \<^verbatim>\<open>/home/dev/CodeRunner\<close>.
\<close>

theorem serving_from_line_names_cwd:
  "fst (main started_elsewhere) ! 1 = Print (emoji_folder @ '' Serving from: /home/dev'')
   \<and> filter is_Handle (fst (main started_elsewhere)) =
       [Handle ''/home/dev/CodeRunner'' ''/index.html'',
        Handle ''/home/dev/CodeRunner'' ''/js/game.js'']
   \<and> getcwd started_elsewhere \<noteq> Handler_init started_elsewhere"
  by (simp add: main_def try_body_def with_httpd_def started_elsewhere_def status_lines_def
      Handler_init_def posix_dirname_script)

end
